theory Spec2Isabelle
  imports Complex_Main "HOL-Library.FSet" "HOL-Library.Sublist"
begin

section \<open>Python values used by the planner\<close>

text \<open>
  The exceptions the modelled code can meet. A call that raises is a value \<open>Inl e\<close> of the
  type \<open>exc + 'a\<close>; a call that returns \<open>v\<close> is \<open>Inr v\<close>.
\<close>

datatype exc = KeyError | ValueError | TypeError | AttributeError | IndexError | TclError
  | OSError | JSONDecodeError

text \<open>
  What \<open>json.load\<close> returns. \<open>JObject\<close> holds the items of the Python dict in insertion
  order (keys are distinct in a dict; \<open>map_of\<close> reads the first item of a key). \<open>JFloat\<close>
  carries the value of a finite float; the only modelled operation on it is its truth value.
\<close>

datatype json = JNull | JBool bool | JInt int | JFloat real | JString string
  | JArray "json list" | JObject "(string \<times> json) list"

text \<open>Sequencing of calls that may raise: the first exception ends the computation.\<close>

definition py_then :: "exc + 'a \<Rightarrow> ('a \<Rightarrow> exc + 'b) \<Rightarrow> exc + 'b" where
  "py_then m f = (case m of Inl e \<Rightarrow> Inl e | Inr v \<Rightarrow> f v)"

text \<open>\<open>key in container\<close> for a string key.\<close>

fun py_in :: "string \<Rightarrow> json \<Rightarrow> exc + bool" where
  "py_in k (JObject kvs) = Inr (k \<in> set (map fst kvs))"
| "py_in k (JArray xs) = Inr (JString k \<in> set xs)"
| "py_in k (JString s) = Inr (sublist k s)"
| "py_in k _ = Inl TypeError"

text \<open>\<open>container[key]\<close> for a string key.\<close>

fun py_getitem :: "json \<Rightarrow> string \<Rightarrow> exc + json" where
  "py_getitem (JObject kvs) k = (case map_of kvs k of None \<Rightarrow> Inl KeyError | Some v \<Rightarrow> Inr v)"
| "py_getitem _ k = Inl TypeError"

text \<open>\<open>data.get(key, default)\<close>: only a dict has the method.\<close>

fun py_get :: "json \<Rightarrow> string \<Rightarrow> json \<Rightarrow> exc + json" where
  "py_get (JObject kvs) k dflt = (case map_of kvs k of None \<Rightarrow> Inr dflt | Some v \<Rightarrow> Inr v)"
| "py_get _ k dflt = Inl AttributeError"

text \<open>\<open>for x in v\<close>: a list gives its elements, a dict its keys, a string its characters.\<close>

fun py_iter :: "json \<Rightarrow> exc + json list" where
  "py_iter (JArray xs) = Inr xs"
| "py_iter (JObject kvs) = Inr (map (\<lambda>kv. JString (fst kv)) kvs)"
| "py_iter (JString s) = Inr (map (\<lambda>c. JString [c]) s)"
| "py_iter _ = Inl TypeError"

text \<open>The truth value of \<open>if v:\<close>.\<close>

fun py_truthy :: "json \<Rightarrow> bool" where
  "py_truthy JNull = False"
| "py_truthy (JBool b) = b"
| "py_truthy (JInt i) = (i \<noteq> 0)"
| "py_truthy (JFloat r) = (r \<noteq> 0)"
| "py_truthy (JString s) = (s \<noteq> [])"
| "py_truthy (JArray xs) = (xs \<noteq> [])"
| "py_truthy (JObject kvs) = (kvs \<noteq> [])"

text \<open>\<open>d.keys()\<close>: only a dict has the method.\<close>

fun py_keys :: "json \<Rightarrow> exc + string list" where
  "py_keys (JObject kvs) = Inr (map fst kvs)"
| "py_keys _ = Inl AttributeError"

subsection \<open>Decimal text\<close>

definition is_digit :: "char \<Rightarrow> bool" where
  "is_digit c = (c \<in> set ''0123456789'')"

definition is_digit19 :: "char \<Rightarrow> bool" where
  "is_digit19 c = (c \<in> set ''123456789'')"

definition digit_val :: "char \<Rightarrow> int" where
  "digit_val c = int (of_char c) - 48"

definition digit_char :: "int \<Rightarrow> char" where
  "digit_char n = ''0123456789'' ! nat n"

text \<open>\<open>str(n)\<close> for an integer.\<close>

fun str_nat :: "nat \<Rightarrow> string" where
  "str_nat n = (if n < 10 then [digit_char (int n)]
                else str_nat (n div 10) @ [digit_char (int (n mod 10))])"

definition str_int :: "int \<Rightarrow> string" where
  "str_int i = (if i < 0 then CHR ''-'' # str_nat (nat (- i)) else str_nat (nat i))"

text \<open>
  \<open>int(s)\<close> for a string: surrounding whitespace is stripped, one sign is allowed, and
  the digits may be separated by single underscores. Anything else raises ValueError.
\<close>

definition is_space :: "char \<Rightarrow> bool" where
  "is_space c = (c \<in> set [CHR '' '', CHR 0x09, CHR 0x0A, CHR 0x0B, CHR 0x0C, CHR 0x0D])"

definition strip :: "string \<Rightarrow> string" where
  "strip s = rev (dropWhile is_space (rev (dropWhile is_space s)))"

fun digits_value :: "int \<Rightarrow> string \<Rightarrow> int option" where
  "digits_value acc [] = Some acc"
| "digits_value acc [c] = (if is_digit c then Some (10 * acc + digit_val c) else None)"
| "digits_value acc (c # d # cs) =
     (if is_digit c then
        (if d = CHR ''_'' then (if cs = [] then None else digits_value (10 * acc + digit_val c) cs)
         else digits_value (10 * acc + digit_val c) (d # cs))
      else None)"

definition py_int :: "string \<Rightarrow> exc + int" where
  "py_int s =
     (case strip s of
        [] \<Rightarrow> Inl ValueError
      | c # cs \<Rightarrow>
          (if c = CHR ''-'' then
             (case cs of [] \<Rightarrow> Inl ValueError
              | _ \<Rightarrow> (case digits_value 0 cs of None \<Rightarrow> Inl ValueError | Some n \<Rightarrow> Inr (- n)))
           else if c = CHR ''+'' then
             (case cs of [] \<Rightarrow> Inl ValueError
              | _ \<Rightarrow> (case digits_value 0 cs of None \<Rightarrow> Inl ValueError | Some n \<Rightarrow> Inr n))
           else (case digits_value 0 (c # cs) of None \<Rightarrow> Inl ValueError | Some n \<Rightarrow> Inr n)))"

section \<open>datetime\<close>

text \<open>
  A naive \<open>datetime.datetime\<close>: equality and hashing compare exactly these fields.
\<close>

record datetime =
  year :: int
  month :: int
  day :: int
  hour :: int
  minute :: int
  second :: int
  microsecond :: int

definition is_leap :: "int \<Rightarrow> bool" where
  "is_leap y = (y mod 4 = 0 \<and> (y mod 100 \<noteq> 0 \<or> y mod 400 = 0))"

definition days_in_month :: "int \<Rightarrow> int \<Rightarrow> int" where
  "days_in_month y m =
     (if m = 2 \<and> is_leap y then 29
      else [0, 31, 28, 31, 30, 31, 30, 31, 31, 30, 31, 30, 31] ! nat m)"

definition days_before_month :: "int \<Rightarrow> int \<Rightarrow> int" where
  "days_before_month y m =
     [0, 0, 31, 59, 90, 120, 151, 181, 212, 243, 273, 304, 334] ! nat m
       + (if m > 2 \<and> is_leap y then 1 else 0)"

definition days_before_year :: "int \<Rightarrow> int" where
  "days_before_year y = (let z = y - 1 in z * 365 + z div 4 - z div 100 + z div 400)"

definition valid_date :: "int \<Rightarrow> int \<Rightarrow> int \<Rightarrow> bool" where
  "valid_date y m d = (1 \<le> y \<and> y \<le> 9999 \<and> 1 \<le> m \<and> m \<le> 12 \<and> 1 \<le> d \<and> d \<le> days_in_month y m)"

definition valid_datetime :: "datetime \<Rightarrow> bool" where
  "valid_datetime t =
     (valid_date (year t) (month t) (day t) \<and> 0 \<le> hour t \<and> hour t < 24
      \<and> 0 \<le> minute t \<and> minute t < 60 \<and> 0 \<le> second t \<and> second t < 60
      \<and> 0 \<le> microsecond t \<and> microsecond t < 1000000)"

text \<open>\<open>datetime(y, m, d)\<close>: midnight of that day, ValueError outside the calendar.\<close>

definition midnight :: "int \<Rightarrow> int \<Rightarrow> int \<Rightarrow> datetime" where
  "midnight y m d =
     \<lparr>year = y, month = m, day = d, hour = 0, minute = 0, second = 0, microsecond = 0\<rparr>"

definition datetime_new :: "int \<Rightarrow> int \<Rightarrow> int \<Rightarrow> exc + datetime" where
  "datetime_new y m d = (if valid_date y m d then Inr (midnight y m d) else Inl ValueError)"

text \<open>\<open>t.date()\<close>: the calendar date, as (year, month, day).\<close>

definition date_of :: "datetime \<Rightarrow> int \<times> int \<times> int" where
  "date_of t = (year t, month t, day t)"

definition toordinal :: "datetime \<Rightarrow> int" where
  "toordinal t = days_before_year (year t) + days_before_month (year t) (month t) + day t"

text \<open>\<open>t.weekday()\<close>: Monday is 0, Sunday is 6.\<close>

definition weekday :: "datetime \<Rightarrow> int" where
  "weekday t = (toordinal t + 6) mod 7"

subsection \<open>The format \<open>%Y-%m-%d\<close>\<close>

text \<open>
  \<open>t.strftime("%Y-%m-%d")\<close>. CPython hands the format to the C library, and on Linux
  (glibc) \<open>%Y\<close> is the year as a plain decimal number, with no padding: year 999 is
  written \<open>999\<close>, not \<open>0999\<close>. Month and day have two digits, zero padded.
\<close>

definition zfill2 :: "int \<Rightarrow> string" where
  "zfill2 n = [digit_char (n div 10 mod 10), digit_char (n mod 10)]"

definition strftime :: "datetime \<Rightarrow> string" where
  "strftime t = str_int (year t) @ ''-'' @ zfill2 (month t) @ ''-'' @ zfill2 (day t)"

text \<open>
  \<open>datetime.strptime(s, "%Y-%m-%d")\<close>. The library matches the regular expression
  \<^verbatim>\<open>(\d\d\d\d)-(1[0-2]|0[1-9]|[1-9])-(3[0-1]|[1-2]\d|0[1-9]|[1-9]| [1-9])\<close> against a prefix of \<open>s\<close>,
  alternatives in this order, raises ValueError when nothing matches or text remains, and
  then builds the date, which raises ValueError outside the calendar. After a month
  alternative has matched, no later alternative can match where the rest failed, so the
  first match decides.
\<close>

fun parse_Y :: "string \<Rightarrow> (int \<times> string) option" where
  "parse_Y (a # b # c # d # rest) =
     (if is_digit a \<and> is_digit b \<and> is_digit c \<and> is_digit d
      then Some (1000 * digit_val a + 100 * digit_val b + 10 * digit_val c + digit_val d, rest)
      else None)"
| "parse_Y _ = None"

fun parse_m :: "string \<Rightarrow> (int \<times> string) option" where
  "parse_m (a # b # rest) =
     (if a = CHR ''1'' \<and> b \<in> set ''012'' then Some (10 + digit_val b, rest)
      else if a = CHR ''0'' \<and> is_digit19 b then Some (digit_val b, rest)
      else if is_digit19 a then Some (digit_val a, b # rest)
      else None)"
| "parse_m [a] = (if is_digit19 a then Some (digit_val a, []) else None)"
| "parse_m [] = None"

fun parse_d :: "string \<Rightarrow> (int \<times> string) option" where
  "parse_d (a # b # rest) =
     (if a = CHR ''3'' \<and> b \<in> set ''01'' then Some (30 + digit_val b, rest)
      else if a \<in> set ''12'' \<and> is_digit b then Some (10 * digit_val a + digit_val b, rest)
      else if a = CHR ''0'' \<and> is_digit19 b then Some (digit_val b, rest)
      else if is_digit19 a then Some (digit_val a, b # rest)
      else if a = CHR '' '' \<and> is_digit19 b then Some (digit_val b, rest)
      else None)"
| "parse_d [a] = (if is_digit19 a then Some (digit_val a, []) else None)"
| "parse_d [] = None"

definition strptime :: "string \<Rightarrow> exc + datetime" where
  "strptime s =
     (case parse_Y s of
        None \<Rightarrow> Inl ValueError
      | Some (y, s1) \<Rightarrow>
          (case s1 of
             [] \<Rightarrow> Inl ValueError
           | c1 # s2 \<Rightarrow>
               if c1 \<noteq> CHR ''-'' then Inl ValueError
               else (case parse_m s2 of
                  None \<Rightarrow> Inl ValueError
                | Some (m, s3) \<Rightarrow>
                    (case s3 of
                       [] \<Rightarrow> Inl ValueError
                     | c2 # s4 \<Rightarrow>
                         if c2 \<noteq> CHR ''-'' then Inl ValueError
                         else (case parse_d s4 of
                            None \<Rightarrow> Inl ValueError
                          | Some (d, s5) \<Rightarrow>
                              if s5 \<noteq> [] then Inl ValueError else datetime_new y m d)))))"

text \<open>\<open>strptime\<close> applied to a JSON value: anything but a string raises TypeError.\<close>

fun strptime_json :: "json \<Rightarrow> exc + datetime" where
  "strptime_json (JString s) = strptime s"
| "strptime_json _ = Inl TypeError"


section \<open>HolidayLoader\<close>

text \<open>
  The loader's \<open>holidays_data\<close> is whatever \<open>json.load\<close> gave for the configuration file;
  the methods below take it as their first argument.
\<close>

text \<open>The body of the \<open>try\<close> in \<open>get_holidays_for_year\<close>, for one entry.\<close>

definition entry_date :: "json \<Rightarrow> exc + datetime" where
  "entry_date holiday = py_then (py_getitem holiday ''date'') strptime_json"

text \<open>The loop over the entries: KeyError and ValueError are caught and the entry skipped.\<close>

fun holidays_loop :: "json list \<Rightarrow> datetime fset \<Rightarrow> exc + datetime fset" where
  "holidays_loop [] holidays = Inr holidays"
| "holidays_loop (holiday # rest) holidays =
     (case entry_date holiday of
        Inr date \<Rightarrow> holidays_loop rest (finsert date holidays)
      | Inl e \<Rightarrow> if e = KeyError \<or> e = ValueError then holidays_loop rest holidays else Inl e)"

definition get_holidays_for_year :: "json \<Rightarrow> int \<Rightarrow> string \<Rightarrow> exc + datetime fset" where
  "get_holidays_for_year holidays_data yr region =
     py_then (py_in region holidays_data) (\<lambda>region_found.
       if \<not> region_found then Inr {||}
       else py_then (py_getitem holidays_data region) (\<lambda>region_data.
         py_then (py_in (str_int yr) region_data) (\<lambda>year_found.
           if \<not> year_found then Inr {||}
           else py_then (py_getitem region_data (str_int yr)) (\<lambda>entries.
             py_then (py_iter entries) (\<lambda>items. holidays_loop items {||})))))"

text \<open>The body of the \<open>try\<close> in \<open>get_holiday_name\<close>: the name when the entry matches.\<close>

definition entry_name_if_match :: "datetime \<Rightarrow> json \<Rightarrow> exc + json option" where
  "entry_name_if_match date holiday =
     py_then (py_getitem holiday ''date'') (\<lambda>v.
       py_then (strptime_json v) (\<lambda>holiday_date.
         if date_of holiday_date = date_of date
         then py_then (py_getitem holiday ''name'') (\<lambda>n. Inr (Some n))
         else Inr None))"

fun name_loop :: "datetime \<Rightarrow> json list \<Rightarrow> exc + json option" where
  "name_loop date [] = Inr None"
| "name_loop date (holiday # rest) =
     (case entry_name_if_match date holiday of
        Inr (Some n) \<Rightarrow> Inr (Some n)
      | Inr None \<Rightarrow> name_loop date rest
      | Inl e \<Rightarrow> if e = KeyError \<or> e = ValueError then name_loop date rest else Inl e)"

definition get_holiday_name :: "json \<Rightarrow> datetime \<Rightarrow> string \<Rightarrow> exc + json option" where
  "get_holiday_name holidays_data date region =
     py_then (py_in region holidays_data) (\<lambda>region_found.
       if \<not> region_found then Inr None
       else py_then (py_getitem holidays_data region) (\<lambda>region_data.
         py_then (py_in (str_int (year date)) region_data) (\<lambda>year_found.
           if \<not> year_found then Inr None
           else py_then (py_getitem region_data (str_int (year date))) (\<lambda>entries.
             py_then (py_iter entries) (\<lambda>items. name_loop date items)))))"

definition get_available_regions :: "json \<Rightarrow> exc + string list" where
  "get_available_regions holidays_data = py_keys holidays_data"

text \<open>\<open>[int(year) for year in keys]\<close>: the first key that is no integer raises.\<close>

fun ints_of :: "string list \<Rightarrow> exc + int list" where
  "ints_of [] = Inr []"
| "ints_of (k # ks) = py_then (py_int k) (\<lambda>i. py_then (ints_of ks) (\<lambda>is. Inr (i # is)))"

definition get_available_years :: "json \<Rightarrow> string \<Rightarrow> exc + int list" where
  "get_available_years holidays_data region =
     py_then (py_in region holidays_data) (\<lambda>region_found.
       if \<not> region_found then Inr []
       else py_then (py_getitem holidays_data region) (\<lambda>region_data.
         py_then (py_keys region_data) ints_of))"

section \<open>StorageManager\<close>

text \<open>
  The storage file as the manager meets it: absent, or present with a content that cannot
  be opened, is no JSON text, or is the text of a JSON value. \<open>writable\<close> says whether
  opening the file for writing succeeds.
\<close>

datatype file_content = Unreadable | Not_json | Json_text json

record storage =
  content :: "file_content option"
  writable :: bool

text \<open>\<open>now.strftime("%Y-%m-%d %H:%M:%S")\<close>.\<close>

definition strftime_stamp :: "datetime \<Rightarrow> string" where
  "strftime_stamp t =
     strftime t @ '' '' @ zfill2 (hour t) @ '':'' @ zfill2 (minute t) @ '':'' @ zfill2 (second t)"

text \<open>
  \<open>save_holidays\<close>. The two sets arrive as the lists of their elements in the order the
  iteration over the set yields them; \<open>now\<close> is the clock reading. The result is the file
  afterwards and the returned flag.
\<close>

definition storage_save_holidays ::
  "storage \<Rightarrow> datetime \<Rightarrow> datetime list \<Rightarrow> datetime list \<Rightarrow> int \<Rightarrow> string \<Rightarrow> storage \<times> bool" where
  "storage_save_holidays st now holidays1 holidays2 previous_year region =
     (let data = JObject
            [(''holidays1'', JArray (map (\<lambda>d. JString (strftime d)) holidays1)),
             (''holidays2'', JArray (map (\<lambda>d. JString (strftime d)) holidays2)),
             (''previous_year'', JInt previous_year),
             (''region'', JString region),
             (''last_updated'', JString (strftime_stamp now))]
      in if writable st then (st\<lparr>content := Some (Json_text data)\<rparr>, True) else (st, False))"

text \<open>\<open>set(datetime.strptime(d, "%Y-%m-%d") for d in ...)\<close>.\<close>

fun dates_of :: "json list \<Rightarrow> exc + datetime fset" where
  "dates_of [] = Inr {||}"
| "dates_of (d # ds) =
     py_then (strptime_json d) (\<lambda>t. py_then (dates_of ds) (\<lambda>S. Inr (finsert t S)))"

text \<open>The part of the \<open>try\<close> in \<open>load_holidays\<close> that follows \<open>json.load\<close>.\<close>

definition load_body :: "json \<Rightarrow> exc + (datetime fset \<times> datetime fset \<times> json \<times> json)" where
  "load_body data =
     py_then (py_get data ''holidays1'' (JArray [])) (\<lambda>v1.
     py_then (py_iter v1) (\<lambda>l1.
     py_then (dates_of l1) (\<lambda>holidays1.
     py_then (py_get data ''holidays2'' (JArray [])) (\<lambda>v2.
     py_then (py_iter v2) (\<lambda>l2.
     py_then (dates_of l2) (\<lambda>holidays2.
     py_then (py_get data ''previous_year'' (JInt 0)) (\<lambda>previous_year.
     py_then (py_get data ''region'' JNull) (\<lambda>region.
       Inr (holidays1, holidays2, previous_year, region)))))))))"

definition load_try :: "file_content \<Rightarrow> exc + (datetime fset \<times> datetime fset \<times> json \<times> json)" where
  "load_try f = (case f of Unreadable \<Rightarrow> Inl OSError | Not_json \<Rightarrow> Inl JSONDecodeError
                 | Json_text data \<Rightarrow> load_body data)"

definition storage_load_holidays :: "storage \<Rightarrow> datetime fset \<times> datetime fset \<times> json \<times> json" where
  "storage_load_holidays st =
     (case content st of
        None \<Rightarrow> ({||}, {||}, JInt 0, JNull)
      | Some f \<Rightarrow>
          (case load_try f of
             Inr r \<Rightarrow> r
           | Inl e \<Rightarrow> ({||}, {||}, JInt 0, JNull)))"

section \<open>CalendarWidget\<close>

datatype button_state = NORMAL | DISABLED

text \<open>
  One day button as \<open>_create_month\<close> leaves it: its date, its label, its state, the date
  its command passes to the callback (no command on a disabled button), the background
  it was given, and its grid cell.
\<close>

record day_button =
  btn_date :: datetime
  btn_text :: string
  btn_state :: button_state
  btn_command :: "datetime option"
  btn_bg :: "string option"
  grid_row :: int
  grid_col :: int

record calendar_widget =
  cal_year :: int
  cal_holidays :: "datetime fset"
  public_holidays :: "datetime fset"
  base_year :: int

text \<open>The body of the loop over the days of a month.\<close>

definition create_day :: "calendar_widget \<Rightarrow> int \<Rightarrow> int \<Rightarrow> int \<Rightarrow> int \<Rightarrow> day_button" where
  "create_day w mon dy row col =
     (let date = midnight (cal_year w) mon dy;
          is_weekend = (weekday date \<in> set [5, 6]);
          is_public_holiday = (date |\<in>| public_holidays w)
      in if is_weekend \<or> is_public_holiday
         then \<lparr>btn_date = date, btn_text = str_int dy, btn_state = DISABLED,
               btn_command = None, btn_bg = None, grid_row = row, grid_col = col\<rparr>
         else \<lparr>btn_date = date, btn_text = str_int dy, btn_state = NORMAL,
               btn_command = Some date,
               btn_bg = (if date |\<in>| cal_holidays w
                         then Some (if cal_year w = base_year w then ''#307CAF'' else ''#6EC6FF'')
                         else None),
               grid_row = row, grid_col = col\<rparr>)"

fun day_loop :: "calendar_widget \<Rightarrow> int \<Rightarrow> int list \<Rightarrow> int \<Rightarrow> int \<Rightarrow> day_button list" where
  "day_loop w mon [] row col = []"
| "day_loop w mon (dy # rest) row col =
     create_day w mon dy row col
       # (if col + 1 > 7 then day_loop w mon rest (row + 1) 1
          else day_loop w mon rest row (col + 1))"

text \<open>
  \<open>_create_month\<close>. For a month before December the source takes the day number of
  the day before the first of the next month, which is the length of the month.
\<close>

definition create_month :: "calendar_widget \<Rightarrow> int \<Rightarrow> day_button list" where
  "create_month w mon =
     (let days_in_mon = (if mon = 12 then 31 else days_in_month (cal_year w) mon);
          first_day = weekday (midnight (cal_year w) mon 1)
      in day_loop w mon [1..days_in_mon] 3 (first_day + 1))"

text \<open>
  \<open>create_calendar\<close>: the twelve months. Every \<open>datetime(self.year, month, day)\<close> of the
  loops has a month and a day inside the calendar, so the calls raise ValueError exactly
  when the year is outside 1 ... 9999, and then the first one does.
\<close>

definition create_calendar :: "calendar_widget \<Rightarrow> exc + day_button list" where
  "create_calendar w =
     (if 1 \<le> cal_year w \<and> cal_year w \<le> 9999
      then Inr (concat (map (create_month w) [1..12]))
      else Inl ValueError)"

section \<open>HolidayPlanner\<close>

text \<open>
  The planner's attributes. \<open>year_var\<close> is the StringVar of the read-only year selector:
  it only ever holds \<open>str(y)\<close> of an integer and is only read through \<open>int(...)\<close>, so
  the integer stands for it. \<open>previous_year_var\<close> is the IntVar behind the editable entry:
  \<open>Some c\<close> when \<open>get()\<close> reads the integer \<open>c\<close>, \<open>None\<close> when \<open>get()\<close> raises TclError.
  \<open>holidays_data\<close> is the data of the planner's HolidayLoader.
\<close>

record planner =
  total_holidays :: int
  initial_region :: string
  year_var :: int
  region_var :: string
  previous_year_var :: "int option"
  holidays_data :: json
  holidays1 :: "datetime fset"
  holidays2 :: "datetime fset"
  taken_holidays1 :: int
  taken_holidays2 :: int

text \<open>What a call does to the window, in the order it happens.\<close>

datatype ui_effect =
    ConfigBg string
  | ConfigStyle string
  | ShowWarning string string
  | SetRemainingLabel int
  | SetTakenLabel int
  | SetYearValues "string list"
  | NoDataLabel string int
  | RenderCalendar "day_button list"

text \<open>The two kinds of button \<open>toggle_holiday\<close> tells apart.\<close>

datatype button = TkButton | TtkButton

definition IntVar_get :: "int option \<Rightarrow> exc + int" where
  "IntVar_get v = (case v of None \<Rightarrow> Inl TclError | Some c \<Rightarrow> Inr c)"

definition calculate_remaining_days :: "planner \<Rightarrow> exc + int" where
  "calculate_remaining_days p =
     py_then (IntVar_get (previous_year_var p)) (\<lambda>c.
       Inr (total_holidays p + c - taken_holidays1 p))"

definition update_labels :: "planner \<Rightarrow> ui_effect list \<times> exc option" where
  "update_labels p =
     (case calculate_remaining_days p of
        Inl e \<Rightarrow> ([], Some e)
      | Inr remaining \<Rightarrow>
          ([SetRemainingLabel remaining, SetTakenLabel (taken_holidays1 p)], None))"

definition button_config :: "button \<Rightarrow> string \<Rightarrow> string \<Rightarrow> ui_effect list" where
  "button_config b bg style = (case b of TkButton \<Rightarrow> [ConfigBg bg] | TtkButton \<Rightarrow> [ConfigStyle style])"

text \<open>
  \<open>toggle_holiday\<close>: the planner afterwards, what happened in the window, and the
  exception that left the call, if any.
\<close>

definition toggle_holiday ::
  "planner \<Rightarrow> datetime \<Rightarrow> button \<Rightarrow> planner \<times> ui_effect list \<times> exc option" where
  "toggle_holiday p date b =
     (let current_year = year_var p in
      if year date = current_year then
        (if date |\<in>| holidays1 p then
           (let p' = p\<lparr>holidays1 := holidays1 p |-| {|date|},
                       taken_holidays1 := taken_holidays1 p - 1\<rparr>;
                fx = button_config b ''SystemButtonFace'' ''TButton''
            in (p', fx @ fst (update_labels p'), snd (update_labels p')))
         else
           (case IntVar_get (previous_year_var p) of
              Inl e \<Rightarrow> (p, [], Some e)
            | Inr c \<Rightarrow>
                (let max_days = total_holidays p + c in
                 if taken_holidays1 p \<ge> max_days then
                   (p, [ShowWarning ''Warning'' ''No more vacation days left for this year!''],
                    None)
                 else
                   (let p' = p\<lparr>holidays1 := finsert date (holidays1 p),
                               taken_holidays1 := taken_holidays1 p + 1\<rparr>;
                        fx = button_config b ''#307CAF'' ''Selected.TButton''
                    in (p', fx @ fst (update_labels p'), snd (update_labels p'))))))
      else (p, fst (update_labels p), snd (update_labels p)))"

text \<open>
  \<open>create_calendar_for_frame\<close>: the holidays of the region, the notice when the region
  has no data for the year, and the calendar of the year.
\<close>

definition create_calendar_for_frame :: "planner \<Rightarrow> int \<Rightarrow> exc + ui_effect list" where
  "create_calendar_for_frame p yr =
     (let region = region_var p in
      py_then (get_holidays_for_year (holidays_data p) yr region) (\<lambda>public_hols.
      py_then (get_available_years (holidays_data p) region) (\<lambda>available_years.
      py_then (create_calendar \<lparr>cal_year = yr, cal_holidays = holidays1 p,
                                public_holidays = public_hols, base_year = yr\<rparr>) (\<lambda>buttons.
        Inr ((if yr \<notin> set available_years then [NoDataLabel region yr] else [])
             @ [RenderCalendar buttons])))))"

text \<open>\<open>rebuild_tabs\<close> with \<open>_create_year_tab\<close>: the labels, then the calendar.\<close>

definition rebuild_tabs :: "planner \<Rightarrow> ui_effect list \<times> exc option" where
  "rebuild_tabs p =
     (case calculate_remaining_days p of
        Inl e \<Rightarrow> ([], Some e)
      | Inr remaining \<Rightarrow>
          (let labels = [SetRemainingLabel remaining, SetTakenLabel (taken_holidays1 p)] in
           case create_calendar_for_frame p (year_var p) of
             Inl e \<Rightarrow> (labels, Some e)
           | Inr fx \<Rightarrow> (labels @ fx, None)))"

text \<open>
  A click on a day button, as Tk handles it: a disabled button, or one without a
  command, does nothing; otherwise the command calls \<open>toggle_holiday\<close> with the date and
  the button.
\<close>

definition click_button :: "planner \<Rightarrow> day_button \<Rightarrow> planner \<times> ui_effect list \<times> exc option" where
  "click_button p b =
     (if btn_state b = DISABLED then (p, [], None)
      else (case btn_command b of
              None \<Rightarrow> (p, [], None)
            | Some d \<Rightarrow> toggle_holiday p d TkButton))"

text \<open>A series of clicks; an exception in a callback is reported and the window lives on.\<close>

fun clicks :: "planner \<Rightarrow> day_button list \<Rightarrow> planner" where
  "clicks p [] = p"
| "clicks p (b # bs) = clicks (fst (click_button p b)) bs"

text \<open>\<open>reset_holidays\<close>; \<open>confirmed\<close> is the answer to the question it asks.\<close>

definition reset_holidays :: "planner \<Rightarrow> bool \<Rightarrow> planner \<times> ui_effect list \<times> exc option" where
  "reset_holidays p confirmed =
     (if \<not> confirmed then (p, [], None)
      else
        (let p' = p\<lparr>holidays1 := {||}, taken_holidays1 := 0\<rparr> in
         case update_labels p' of
           (fx, Some e) \<Rightarrow> (p', fx, Some e)
         | (fx, None) \<Rightarrow>
             (case create_calendar_for_frame p' (year_var p') of
                Inl e \<Rightarrow> (p', fx, Some e)
              | Inr cfx \<Rightarrow> (p', fx @ cfx, None))))"

text \<open>
  The planner's \<open>save_holidays\<close>: every exception is swallowed. \<open>order\<close> gives the
  sequence in which the iteration over a set yields its elements.
\<close>

definition planner_save_holidays ::
  "(datetime fset \<Rightarrow> datetime list) \<Rightarrow> datetime \<Rightarrow> planner \<Rightarrow> storage \<Rightarrow> storage" where
  "planner_save_holidays order now p st =
     (case IntVar_get (previous_year_var p) of
        Inl e \<Rightarrow> st
      | Inr c \<Rightarrow> fst (storage_save_holidays st now (order (holidays1 p)) (order (holidays2 p))
                        c (region_var p)))"

text \<open>
  The planner's \<open>load_holidays\<close>. \<open>tk_int v\<close> and \<open>tk_str v\<close> are what the IntVar and the
  StringVar hold after \<open>set(v)\<close>; Tcl's conversion of a value is not code of the planner.
\<close>

definition planner_load_holidays ::
  "(json \<Rightarrow> int option) \<Rightarrow> (json \<Rightarrow> string) \<Rightarrow> storage \<Rightarrow> planner \<Rightarrow> planner" where
  "planner_load_holidays tk_int tk_str st p =
     (case storage_load_holidays st of
        (h1, h2, prev_year, saved_region) \<Rightarrow>
          (let p' = p\<lparr>holidays1 := h1, holidays2 := h2,
                      taken_holidays1 := int (fcard h1), taken_holidays2 := int (fcard h2),
                      previous_year_var := tk_int prev_year\<rparr>
           in if py_truthy saved_region
              then p'\<lparr>region_var := tk_str saved_region, initial_region := tk_str saved_region\<rparr>
              else p'))"

text \<open>The three answers of the question \<open>on_region_change\<close> asks.\<close>

datatype answer = Cancel | Yes | No

text \<open>
  \<open>on_region_change\<close>. The selector has already put the new region into \<open>region_var\<close>.
  \<open>CURRENT_YEAR\<close> is the module's constant, \<open>response\<close> the answer to the question, which is
  asked only when a selection exists. The result is the planner, the storage file, the
  effects on the window and the exception that left the call, if any.
\<close>

definition on_region_change ::
  "(datetime fset \<Rightarrow> datetime list) \<Rightarrow> datetime \<Rightarrow> int \<Rightarrow> answer \<Rightarrow> planner \<Rightarrow> storage
     \<Rightarrow> planner \<times> storage \<times> ui_effect list \<times> exc option" where
  "on_region_change order now CURRENT_YEAR response p st =
     (let new_region = region_var p;
          asked = (holidays1 p \<noteq> {||} \<or> holidays2 p \<noteq> {||})
      in if asked \<and> response = Cancel
         then (p\<lparr>region_var := initial_region p\<rparr>, st, [], None)
         else
           (let st' = (if asked \<and> response = Yes then planner_save_holidays order now p st
                       else st);
                p1 = p\<lparr>initial_region := new_region\<rparr>
            in case get_available_years (holidays_data p1) new_region of
                 Inl e \<Rightarrow> (p1, st', [], Some e)
               | Inr available \<Rightarrow>
                   (let years = (if sort available = [] then [CURRENT_YEAR] else sort available);
                        values_fx = [SetYearValues (map str_int years)]
                    in case years of
                         [] \<Rightarrow> (p1, st', values_fx, Some IndexError)
                       | first_year # _ \<Rightarrow>
                           (let p2 = (if year_var p1 \<notin> set years
                                      then p1\<lparr>year_var := first_year\<rparr> else p1)
                            in (p2, st', values_fx @ fst (rebuild_tabs p2),
                                snd (rebuild_tabs p2))))))"

section \<open>Stated properties and the inputs they are tried on\<close>

text \<open>The counter of the active year equals the size of the selection.\<close>

definition taken_matches_selection :: "planner \<Rightarrow> bool" where
  "taken_matches_selection p = (taken_holidays1 p = int (fcard (holidays1 p)))"

text \<open>A planner whose allowance of one day is used up by the third of March 2025.\<close>

definition planner_full :: planner where
  "planner_full = \<lparr>total_holidays = 1, initial_region = ''berlin'', year_var = 2025,
     region_var = ''berlin'', previous_year_var = Some 0, holidays_data = JObject [],
     holidays1 = {|midnight 2025 3 3|}, holidays2 = {||}, taken_holidays1 = 1,
     taken_holidays2 = 0\<rparr>"

text \<open>Midnight of the day of a datetime: what is left of it when the time of day is dropped.\<close>

definition day_start :: "datetime \<Rightarrow> datetime" where
  "day_start t = midnight (year t) (month t) (day t)"

text \<open>What \<open>load_holidays\<close> returns when it has nothing to read.\<close>

definition storage_defaults :: "datetime fset \<times> datetime fset \<times> json \<times> json" where
  "storage_defaults = ({||}, {||}, JInt 0, JNull)"

text \<open>Inputs for the storage manager.\<close>

definition morning_2025_03_03 :: datetime where
  "morning_2025_03_03 =
     \<lparr>year = 2025, month = 3, day = 3, hour = 9, minute = 30, second = 0, microsecond = 0\<rparr>"

definition empty_storage :: storage where
  "empty_storage = \<lparr>content = None, writable = True\<rparr>"

text \<open>
  The file after saving the single day 0999-01-01 with carryover 2 and region berlin on
  2025-03-01.
\<close>

definition year_999_storage :: storage where
  "year_999_storage =
     \<lparr>content = Some (Json_text (JObject
        [(''holidays1'', JArray [JString ''999-01-01'']),
         (''holidays2'', JArray []),
         (''previous_year'', JInt 2),
         (''region'', JString ''berlin''),
         (''last_updated'', JString ''2025-03-01 00:00:00'')])),
      writable = True\<rparr>"

definition bad_date_storage :: storage where
  "bad_date_storage =
     \<lparr>content = Some (Json_text (JObject
         [(''holidays1'', JArray [JString ''2025-03-03'', JString ''2025-13-45'']),
          (''previous_year'', JInt 4), (''region'', JString ''berlin'')])),
      writable = True\<rparr>"

text \<open>A day that is a Saturday, a Sunday or one of the given public holidays.\<close>

definition is_blocked :: "datetime fset \<Rightarrow> datetime \<Rightarrow> bool" where
  "is_blocked ph t = (weekday t \<in> set [5, 6] \<or> t |\<in>| ph)"

text \<open>
  A configuration with Christmas 2025 for Berlin, a planner on it, and the buttons of its
  calendar of 2025.
\<close>

definition berlin_config :: json where
  "berlin_config = JObject [(''berlin'', JObject [(''2025'', JArray
      [JObject [(''date'', JString ''2025-12-25''), (''name'', JString ''Christmas'')]])])]"

definition planner_berlin :: planner where
  "planner_berlin = \<lparr>total_holidays = 30, initial_region = ''berlin'', year_var = 2025,
     region_var = ''berlin'', previous_year_var = Some 0, holidays_data = berlin_config,
     holidays1 = {||}, holidays2 = {||}, taken_holidays1 = 0, taken_holidays2 = 0\<rparr>"

definition berlin_buttons :: "day_button list" where
  "berlin_buttons = concat (map (create_month
      \<lparr>cal_year = 2025, cal_holidays = {||}, public_holidays = {|midnight 2025 12 25|},
        base_year = 2025\<rparr>) [1..12])"

text \<open>
  The entries of a configuration, read without the loader: the text of an entry's date,
  its name, the date when the text is one, and whether the entry falls on a given day.
\<close>

definition date_text :: "json \<Rightarrow> string option" where
  "date_text h = (case h of JObject kvs \<Rightarrow>
                    (case map_of kvs ''date'' of Some (JString s) \<Rightarrow> Some s | _ \<Rightarrow> None)
                  | _ \<Rightarrow> None)"

definition name_value :: "json \<Rightarrow> json option" where
  "name_value h = (case h of JObject kvs \<Rightarrow> map_of kvs ''name'' | _ \<Rightarrow> None)"

definition parsed_date :: "json \<Rightarrow> datetime option" where
  "parsed_date h = (case date_text h of None \<Rightarrow> None
                    | Some s \<Rightarrow> (case strptime s of Inr t \<Rightarrow> Some t | Inl e \<Rightarrow> None))"

definition entry_on :: "datetime \<Rightarrow> json \<Rightarrow> bool" where
  "entry_on date h = (case parsed_date h of None \<Rightarrow> False | Some t \<Rightarrow> date_of t = date_of date)"

text \<open>The stored entries of a region and year; none when either is absent.\<close>

definition entries_of :: "json \<Rightarrow> int \<Rightarrow> string \<Rightarrow> json list" where
  "entries_of cfg yr region =
     (case cfg of
        JObject rs \<Rightarrow>
          (case map_of rs region of
             Some (JObject ys) \<Rightarrow>
               (case map_of ys (str_int yr) of Some (JArray es) \<Rightarrow> es | _ \<Rightarrow> [])
           | _ \<Rightarrow> [])
      | _ \<Rightarrow> [])"

text \<open>
  The documented shape of the configuration: an object of regions, each an object of
  years, each a list of entry objects whose date, when there is one, is a string.
\<close>

definition entry_well_typed :: "json \<Rightarrow> bool" where
  "entry_well_typed h =
     (case h of
        JObject kvs \<Rightarrow>
          (case map_of kvs ''date'' of None \<Rightarrow> True | Some (JString s) \<Rightarrow> True | Some _ \<Rightarrow> False)
      | _ \<Rightarrow> False)"

definition year_well_typed :: "json \<Rightarrow> bool" where
  "year_well_typed v = (case v of JArray es \<Rightarrow> list_all entry_well_typed es | _ \<Rightarrow> False)"

definition region_well_typed :: "json \<Rightarrow> bool" where
  "region_well_typed v =
     (case v of JObject ys \<Rightarrow> list_all (\<lambda>kv. year_well_typed (snd kv)) ys | _ \<Rightarrow> False)"

definition config_well_typed :: "json \<Rightarrow> bool" where
  "config_well_typed cfg =
     (case cfg of JObject rs \<Rightarrow> list_all (\<lambda>kv. region_well_typed (snd kv)) rs | _ \<Rightarrow> False)"

text \<open>
  The name lookup in the words of the specification: the name of the first entry, in
  stored order, whose date is the given day; none when there is no such entry.
\<close>

definition claimed_holiday_name :: "json \<Rightarrow> datetime \<Rightarrow> string \<Rightarrow> json option" where
  "claimed_holiday_name cfg date region =
     (case find (entry_on date) (entries_of cfg (year date) region) of
        None \<Rightarrow> None | Some h \<Rightarrow> name_value h)"

text \<open>The same with entries that have no name passed over.\<close>

definition first_named_holiday :: "json \<Rightarrow> datetime \<Rightarrow> string \<Rightarrow> json option" where
  "first_named_holiday cfg date region =
     (case find (\<lambda>h. entry_on date h \<and> name_value h \<noteq> None)
             (entries_of cfg (year date) region) of
        None \<Rightarrow> None | Some h \<Rightarrow> name_value h)"

text \<open>Configurations with an entry whose date is null, and with a first entry without a name.\<close>

definition null_date_config :: json where
  "null_date_config = JObject [(''berlin'', JObject [(''2025'', JArray
      [JObject [(''date'', JNull), (''name'', JString ''Easter'')],
       JObject [(''date'', JString ''2025-12-25''), (''name'', JString ''Christmas'')]])])]"

definition nameless_first_config :: json where
  "nameless_first_config = JObject [(''berlin'', JObject [(''2025'', JArray
      [JObject [(''date'', JString ''2025-12-25'')],
       JObject [(''date'', JString ''2025-12-25''), (''name'', JString ''Christmas'')]])])]"

text \<open>
  The year after a region change in the words of the specification: unchanged when it is
  among the available years of the new region, their first in sorted order otherwise.
\<close>

definition claimed_region_change_year :: "int list \<Rightarrow> int \<Rightarrow> int \<Rightarrow> bool" where
  "claimed_region_change_year available y y' =
     (if y \<in> set available then y' = y
      else (case sort available of [] \<Rightarrow> False | first_year # rest \<Rightarrow> y' = first_year))"

text \<open>Three regions, one of them without any year, and planners that just selected one.\<close>

definition regions_config :: json where
  "regions_config = JObject
     [(''berlin'', JObject [(''2025'', JArray [])]),
      (''hamburg'', JObject [(''2027'', JArray []), (''2026'', JArray [])]),
      (''bremen'', JObject [])]"

definition planner_to_hamburg :: planner where
  "planner_to_hamburg = \<lparr>total_holidays = 30, initial_region = ''berlin'', year_var = 2025,
     region_var = ''hamburg'', previous_year_var = Some 0, holidays_data = regions_config,
     holidays1 = {||}, holidays2 = {||}, taken_holidays1 = 0, taken_holidays2 = 0\<rparr>"

definition planner_to_bremen :: planner where
  "planner_to_bremen = \<lparr>total_holidays = 30, initial_region = ''berlin'', year_var = 2025,
     region_var = ''bremen'', previous_year_var = Some 0, holidays_data = regions_config,
     holidays1 = {||}, holidays2 = {||}, taken_holidays1 = 0, taken_holidays2 = 0\<rparr>"


section \<open>Toggle and accounting\<close>

lemma fcard_member_pred:
  assumes "x |\<in>| S"
  shows "int (fcard S - Suc 0) = int (fcard S) - 1"
proof -
  have "Suc (fcard (S |-| {|x|})) = fcard S"
    by (rule fcard_Suc_fminus1 [OF assms])
  then have "0 < fcard S"
    by arith
  then show ?thesis
    by arith
qed

text \<open>
  C1. A date of the active year that is not selected, toggled while the carryover entry
  reads \<open>c\<close>: below the limit \<open>total_holidays + c\<close> the date joins the selection and the
  counter grows by one; at or above the limit the call changes nothing and shows the
  warning. In particular nothing changes when the counter equals the limit.
\<close>

theorem toggle_add_gate:
  assumes "year date = year_var p" and "date |\<notin>| holidays1 p"
    and "previous_year_var p = Some c"
  shows "(taken_holidays1 p < total_holidays p + c \<longrightarrow>
            holidays1 (fst (toggle_holiday p date b)) = finsert date (holidays1 p)
          \<and> taken_holidays1 (fst (toggle_holiday p date b)) = taken_holidays1 p + 1
          \<and> snd (snd (toggle_holiday p date b)) = None)
       \<and> (\<not> taken_holidays1 p < total_holidays p + c \<longrightarrow>
            toggle_holiday p date b
              = (p, [ShowWarning ''Warning'' ''No more vacation days left for this year!''], None))
       \<and> (taken_holidays1 p = total_holidays p + c \<longrightarrow>
            holidays1 (fst (toggle_holiday p date b)) = holidays1 p
          \<and> taken_holidays1 (fst (toggle_holiday p date b)) = taken_holidays1 p)"
  using assms
  by (simp add: toggle_holiday_def IntVar_get_def Let_def update_labels_def
      calculate_remaining_days_def py_then_def)

theorem toggle_add_gate_witness:
  "toggle_holiday planner_full (midnight 2025 3 4) TkButton
     = (planner_full, [ShowWarning ''Warning'' ''No more vacation days left for this year!''], None)"
  using toggle_add_gate [of "midnight 2025 3 4" planner_full 0 TkButton]
  by (simp add: planner_full_def midnight_def)

text \<open>
  C2. The counter equals the size of the selection after the planner has loaded its
  state, and every toggle and every reset (confirmed or not) keeps it so.
\<close>

theorem taken_invariant:
  "taken_matches_selection (planner_load_holidays tk_int tk_str st p)
   \<and> (taken_matches_selection p \<longrightarrow> taken_matches_selection (fst (toggle_holiday p date b)))
   \<and> (taken_matches_selection p \<longrightarrow> taken_matches_selection (fst (reset_holidays p confirmed)))"
proof (intro conjI impI)
  show "taken_matches_selection (planner_load_holidays tk_int tk_str st p)"
    by (simp add: planner_load_holidays_def taken_matches_selection_def Let_def
        split: prod.splits)
next
  assume inv: "taken_matches_selection p"
  show "taken_matches_selection (fst (toggle_holiday p date b))"
    using inv
    by (auto simp: toggle_holiday_def taken_matches_selection_def Let_def IntVar_get_def
        fcard_member_pred fcard_finsert_disjoint split: option.splits)
next
  assume inv: "taken_matches_selection p"
  show "taken_matches_selection (fst (reset_holidays p confirmed))"
    using inv
    by (auto simp: reset_holidays_def taken_matches_selection_def Let_def
        split: prod.splits option.splits sum.splits)
qed

lemma planner_full_inv: "taken_matches_selection planner_full"
  by (simp add: taken_matches_selection_def planner_full_def fcard_finsert_if)

theorem taken_invariant_witness:
  "taken_matches_selection planner_full
   \<and> taken_matches_selection (fst (toggle_holiday planner_full (midnight 2025 3 3) TkButton))
   \<and> taken_matches_selection (fst (reset_holidays planner_full True))
   \<and> taken_matches_selection
       (planner_load_holidays (\<lambda>v. None) (\<lambda>v. []) \<lparr>content = None, writable = True\<rparr> planner_full)"
  using taken_invariant [of "\<lambda>v. None" "\<lambda>v. []" "\<lparr>content = None, writable = True\<rparr>" planner_full
      "midnight 2025 3 3" TkButton True] planner_full_inv
  by simp

text \<open>
  C10. A date of another year than the active one: the planner is left as it was, and
  the window only gets its two labels set.
\<close>

theorem toggle_other_year:
  assumes "year date \<noteq> year_var p"
  shows "fst (toggle_holiday p date b) = p
       \<and> set (fst (snd (toggle_holiday p date b)))
           \<subseteq> range SetRemainingLabel \<union> range SetTakenLabel"
  using assms
  by (auto simp: toggle_holiday_def Let_def update_labels_def split: sum.splits)

theorem toggle_other_year_witness:
  "year (midnight 2024 3 4) \<noteq> year_var planner_full
   \<and> fst (toggle_holiday planner_full (midnight 2024 3 4) TkButton) = planner_full"
  using toggle_other_year [of "midnight 2024 3 4" planner_full TkButton]
  by (simp add: planner_full_def midnight_def)

section \<open>Dates as text\<close>

lemma in_range: "lo \<le> (x::int) \<Longrightarrow> x \<le> hi \<Longrightarrow> list_all P [lo..hi] \<Longrightarrow> P x"
  by (simp add: list_all_iff)

lemma digits_all:
  "list_all (\<lambda>n. is_digit (digit_char n) \<and> digit_val (digit_char n) = n) [0..9]"
  by (simp add: upto.simps digit_char_def is_digit_def digit_val_def)

lemma digit_char_props:
  assumes "0 \<le> n" and "n \<le> 9"
  shows "is_digit (digit_char n)" and "digit_val (digit_char n) = n"
  using in_range [OF assms digits_all]
  by simp_all

lemma digit_char_values:
  "digit_char 0 = CHR ''0''" "digit_char 1 = CHR ''1''" "digit_char 2 = CHR ''2''"
  "digit_char 3 = CHR ''3''" "digit_char 4 = CHR ''4''" "digit_char 5 = CHR ''5''"
  "digit_char 6 = CHR ''6''" "digit_char 7 = CHR ''7''" "digit_char 8 = CHR ''8''"
  "digit_char 9 = CHR ''9''"
  by (simp_all add: digit_char_def)

lemma mod10_step: "(a::int) mod 10 = a - 10 * (a div 10)"
  by (simp add: minus_mult_div_eq_mod)

lemma four_digits:
  assumes "0 \<le> y" and "y \<le> 9999"
  shows "1000 * (y div 1000 mod 10) + 100 * (y div 100 mod 10) + 10 * (y div 10 mod 10) + y mod 10 = (y::int)"
proof -
  have a: "y div 1000 div 10 = 0"
    using assms by simp
  have b: "y div 100 div 10 = y div 1000"
    by (simp add: zdiv_zmult2_eq)
  have c: "y div 10 div 10 = y div 100"
    by (simp add: zdiv_zmult2_eq)
  show ?thesis
    unfolding mod10_step [of "y div 1000"] mod10_step [of "y div 100"] mod10_step [of "y div 10"]
      mod10_step [of y] a b c
    by simp
qed

lemma str_nat_four:
  assumes "1000 \<le> n" and "n \<le> 9999"
  shows "str_nat n = [digit_char (int (n div 1000 mod 10)), digit_char (int (n div 100 mod 10)),
                      digit_char (int (n div 10 mod 10)), digit_char (int (n mod 10))]"
proof -
  have a: "\<not> n < 10" "\<not> n div 10 < 10" "\<not> n div 100 < 10" "n div 1000 < 10"
    using assms by simp_all
  have b: "n div 10 div 10 = n div 100" "n div 100 div 10 = n div 1000"
    by (simp_all add: div_mult2_eq [symmetric])
  have c: "n div 1000 mod 10 = n div 1000"
    using a(4) by simp
  have "str_nat n = str_nat (n div 10) @ [digit_char (int (n mod 10))]"
    using a(1) by (subst str_nat.simps) simp
  also have "str_nat (n div 10) = str_nat (n div 100) @ [digit_char (int (n div 10 mod 10))]"
    using a(2) b(1) by (subst str_nat.simps) simp
  also have "str_nat (n div 100) = str_nat (n div 1000) @ [digit_char (int (n div 100 mod 10))]"
    using a(3) b(2) by (subst str_nat.simps) simp
  also have "str_nat (n div 1000) = [digit_char (int (n div 1000 mod 10))]"
    using a(4) c by (subst str_nat.simps) simp
  finally show ?thesis
    by simp
qed

lemma str_int_four:
  assumes "1000 \<le> y" and "y \<le> 9999"
  shows "str_int y = [digit_char (y div 1000 mod 10), digit_char (y div 100 mod 10),
                      digit_char (y div 10 mod 10), digit_char (y mod 10)]"
proof -
  have n: "1000 \<le> nat y" "nat y \<le> 9999"
    using assms by simp_all
  have "str_int y = str_nat (nat y)"
    using assms by (simp add: str_int_def)
  also note str_nat_four [OF n]
  finally show ?thesis
    using assms by (simp add: zdiv_int zmod_int)
qed

text \<open>A year written with four digits is read back; a shorter one is not a year.\<close>

lemma parse_Y_str_int:
  assumes "1000 \<le> y" and "y \<le> 9999"
  shows "parse_Y (str_int y @ rest) = Some (y, rest)"
proof -
  have y0: "0 \<le> y"
    using assms by simp
  have d: "0 \<le> y div 1000 mod 10" "y div 1000 mod 10 \<le> 9" "0 \<le> y div 100 mod 10"
    "y div 100 mod 10 \<le> 9" "0 \<le> y div 10 mod 10" "y div 10 mod 10 \<le> 9" "0 \<le> y mod 10"
    "y mod 10 \<le> 9"
    by simp_all
  have "parse_Y (str_int y @ rest)
          = Some (1000 * (y div 1000 mod 10) + 100 * (y div 100 mod 10)
                    + 10 * (y div 10 mod 10) + y mod 10, rest)"
    by (simp add: str_int_four [OF assms] digit_char_props d)
  then show ?thesis
    by (simp only: four_digits [OF y0 assms(2)])
qed

lemma parse_m_all:
  "list_all (\<lambda>m. parse_m (zfill2 m @ CHR ''-'' # rest) = Some (m, CHR ''-'' # rest)) [1..12]"
  by (simp add: upto.simps zfill2_def digit_char_def is_digit19_def digit_val_def)

lemma parse_m_zfill2:
  assumes "1 \<le> m" and "m \<le> 12"
  shows "parse_m (zfill2 m @ CHR ''-'' # rest) = Some (m, CHR ''-'' # rest)"
  using in_range [OF assms parse_m_all]
  by simp

lemma days_in_month_all: "list_all (\<lambda>m. days_in_month y m \<le> 31) [1..12]"
  by (simp add: upto.simps days_in_month_def)

lemma days_in_month_le_31:
  assumes "1 \<le> m" and "m \<le> 12"
  shows "days_in_month y m \<le> 31"
  using in_range [OF assms days_in_month_all]
  by simp

lemma parse_d_all: "list_all (\<lambda>d. parse_d (zfill2 d) = Some (d, [])) [1..31]"
  by (simp add: upto.simps zfill2_def digit_char_def is_digit19_def is_digit_def digit_val_def)

lemma parse_d_zfill2:
  assumes "1 \<le> d" and "d \<le> 31"
  shows "parse_d (zfill2 d) = Some (d, [])"
  using in_range [OF assms parse_d_all]
  by simp

lemma strptime_strftime:
  assumes "valid_datetime t" and "1000 \<le> year t"
  shows "strptime (strftime t) = Inr (midnight (year t) (month t) (day t))"
proof -
  have v: "valid_date (year t) (month t) (day t)"
    using assms by (simp add: valid_datetime_def)
  then have y: "year t \<le> 9999" and m: "1 \<le> month t" "month t \<le> 12"
    and d1: "1 \<le> day t" and d2: "day t \<le> days_in_month (year t) (month t)"
    by (simp_all add: valid_date_def)
  have d31: "day t \<le> 31"
    using d2 days_in_month_le_31 [OF m, of "year t"] by arith
  have Y: "parse_Y (strftime t)
             = Some (year t, CHR ''-'' # zfill2 (month t) @ CHR ''-'' # zfill2 (day t))"
    using parse_Y_str_int [OF assms(2) y] by (simp add: strftime_def)
  show ?thesis
    by (simp add: strptime_def Y parse_m_zfill2 [OF m] parse_d_zfill2 [OF d1 d31]
        datetime_new_def v)
qed

section \<open>Persistence\<close>

lemma date_of_day_start: "date_of (day_start t) = date_of t"
  by (simp add: date_of_def day_start_def midnight_def)

lemma dates_of_strftime:
  assumes "list_all (\<lambda>t. valid_datetime t \<and> 1000 \<le> year t) xs"
  shows "dates_of (map (\<lambda>d. JString (strftime d)) xs) = Inr (day_start |`| fset_of_list xs)"
  using assms
  by (induction xs) (simp_all add: py_then_def strptime_strftime day_start_def)

text \<open>
  From year 1000 on the round trip holds. Saving two selections (valid datetimes of the
  years 1000 to 9999, in whatever order the sets are iterated), a carryover and a region,
  and loading from the file that a successful save leaves: the load returns the midnights
  of the saved days, the carryover and the region. The calendar dates of what is loaded are
  the calendar dates of what was saved.
\<close>

lemma save_load_from_1000:
  assumes "list_all (\<lambda>t. valid_datetime t \<and> 1000 \<le> year t) xs1"
    and "list_all (\<lambda>t. valid_datetime t \<and> 1000 \<le> year t) xs2"
    and "storage_save_holidays st now xs1 xs2 c r = (st', True)"
  shows "storage_load_holidays st'
           = (day_start |`| fset_of_list xs1, day_start |`| fset_of_list xs2, JInt c, JString r)
       \<and> date_of |`| fst (storage_load_holidays st') = date_of |`| fset_of_list xs1
       \<and> date_of |`| fst (snd (storage_load_holidays st')) = date_of |`| fset_of_list xs2"
proof -
  let ?data = "JObject
            [(''holidays1'', JArray (map (\<lambda>d. JString (strftime d)) xs1)),
             (''holidays2'', JArray (map (\<lambda>d. JString (strftime d)) xs2)),
             (''previous_year'', JInt c),
             (''region'', JString r),
             (''last_updated'', JString (strftime_stamp now))]"
  have c: "content st' = Some (Json_text ?data)"
    using assms(3) by (auto simp: storage_save_holidays_def Let_def split: if_splits)
  have body: "load_body ?data
           = Inr (day_start |`| fset_of_list xs1, day_start |`| fset_of_list xs2, JInt c, JString r)"
    by (simp add: load_body_def py_then_def dates_of_strftime [OF assms(1)]
        dates_of_strftime [OF assms(2)])
  have eq: "storage_load_holidays st'
           = (day_start |`| fset_of_list xs1, day_start |`| fset_of_list xs2, JInt c, JString r)"
    by (simp add: storage_load_holidays_def c load_try_def body)
  have comp: "date_of \<circ> day_start = date_of"
    by (rule ext) (simp add: date_of_day_start)
  show ?thesis
    by (simp add: eq fset.map_comp comp)
qed

text \<open>
  C3. The round trip through the file is lost below year 1000. The day 0999-01-01 is a
  valid datetime; saving it, with carryover 2 and region berlin, succeeds and writes the
  date as \<open>999-01-01\<close>; \<open>strptime\<close> wants four digits for \<open>%Y\<close> and raises ValueError,
  which \<open>load_holidays\<close> catches: the load returns the defaults, so the day, the carryover
  and the region that were saved are not returned.
\<close>

theorem save_load_year_999:
  "valid_datetime (midnight 999 1 1)
   \<and> storage_save_holidays empty_storage (midnight 2025 3 1) [midnight 999 1 1] [] 2 ''berlin''
       = (year_999_storage, True)
   \<and> strptime ''999-01-01'' = Inl ValueError
   \<and> storage_load_holidays year_999_storage = ({||}, {||}, JInt 0, JNull)"
proof -
  have valid: "valid_datetime (midnight 999 1 1)"
    by (simp add: valid_datetime_def valid_date_def days_in_month_def midnight_def)
  have text_999: "strftime (midnight 999 1 1) = ''999-01-01''"
    by (simp add: strftime_def str_int_def zfill2_def digit_char_def midnight_def)
  have stamp: "strftime_stamp (midnight 2025 3 1) = ''2025-03-01 00:00:00''"
    by (simp add: strftime_stamp_def strftime_def str_int_def zfill2_def digit_char_def
        midnight_def)
  have saved: "storage_save_holidays empty_storage (midnight 2025 3 1) [midnight 999 1 1] [] 2
                 ''berlin'' = (year_999_storage, True)"
    by (simp add: storage_save_holidays_def empty_storage_def year_999_storage_def text_999
        stamp)
  have unread: "strptime ''999-01-01'' = Inl ValueError"
    by (simp add: strptime_def is_digit_def)
  have loaded: "storage_load_holidays year_999_storage = ({||}, {||}, JInt 0, JNull)"
    by (simp add: storage_load_holidays_def year_999_storage_def load_try_def load_body_def
        py_then_def unread)
  show ?thesis
    using valid saved unread loaded by simp
qed

lemma dates_of_fails:
  assumes "x \<in> set ds" and "strptime_json x = Inl e"
  shows "\<exists>e'. dates_of ds = Inl e'"
  using assms
  by (induction ds) (auto simp: py_then_def split: sum.splits)

text \<open>
  C7. \<open>load_holidays\<close> returns a value in every case (each exception of its body is
  caught), and it is the defaults when the file is absent, cannot be opened, is no JSON,
  or when anything in the \<open>try\<close> block raises; a date string that \<open>strptime\<close> rejects, in
  either list, is such a case.
\<close>

theorem load_defaults_on_failure:
  "(content st = None \<longrightarrow> storage_load_holidays st = storage_defaults)
   \<and> (content st = Some Unreadable \<longrightarrow> storage_load_holidays st = storage_defaults)
   \<and> (content st = Some Not_json \<longrightarrow> storage_load_holidays st = storage_defaults)
   \<and> (content st = Some (Json_text data) \<and> load_body data = Inl e
        \<longrightarrow> storage_load_holidays st = storage_defaults)
   \<and> (content st = Some (Json_text (JObject kvs))
        \<and> (map_of kvs ''holidays1'' = Some (JArray ds) \<or> map_of kvs ''holidays2'' = Some (JArray ds))
        \<and> JString s \<in> set ds \<and> strptime s = Inl e'
        \<longrightarrow> storage_load_holidays st = storage_defaults)"
proof (intro conjI impI)
  assume a: "content st = Some (Json_text (JObject kvs))
        \<and> (map_of kvs ''holidays1'' = Some (JArray ds) \<or> map_of kvs ''holidays2'' = Some (JArray ds))
        \<and> JString s \<in> set ds \<and> strptime s = Inl e'"
  then have "\<exists>x. dates_of ds = Inl x"
    using dates_of_fails [of "JString s" ds e'] by simp
  then obtain x where x: "dates_of ds = Inl x" ..
  have "\<exists>y. load_body (JObject kvs) = Inl y"
    using a x by (auto simp: load_body_def py_then_def split: sum.splits option.splits)
  then show "storage_load_holidays st = storage_defaults"
    using a by (auto simp: storage_load_holidays_def load_try_def storage_defaults_def)
qed (simp_all add: storage_load_holidays_def load_try_def storage_defaults_def)

lemma save_load_2025:
  "storage_load_holidays
     (fst (storage_save_holidays empty_storage (midnight 2025 3 1) [morning_2025_03_03]
            [midnight 2026 1 2] 2 ''berlin''))
   = ({|midnight 2025 3 3|}, {|midnight 2026 1 2|}, JInt 2, JString ''berlin'')"
proof -
  have v1: "list_all (\<lambda>t. valid_datetime t \<and> 1000 \<le> year t) [morning_2025_03_03]"
    by (simp add: valid_datetime_def valid_date_def days_in_month_def morning_2025_03_03_def)
  have v2: "list_all (\<lambda>t. valid_datetime t \<and> 1000 \<le> year t) [midnight 2026 1 2]"
    by (simp add: valid_datetime_def valid_date_def days_in_month_def midnight_def)
  have s: "storage_save_holidays empty_storage (midnight 2025 3 1) [morning_2025_03_03]
            [midnight 2026 1 2] 2 ''berlin''
       = (fst (storage_save_holidays empty_storage (midnight 2025 3 1) [morning_2025_03_03]
            [midnight 2026 1 2] 2 ''berlin''), True)"
    by (simp add: storage_save_holidays_def empty_storage_def)
  show ?thesis
    using save_load_from_1000 [OF v1 v2 s]
    by (simp add: day_start_def morning_2025_03_03_def midnight_def)
qed

theorem load_defaults_on_failure_witness:
  "storage_load_holidays bad_date_storage = ({||}, {||}, JInt 0, JNull)
   \<and> storage_load_holidays empty_storage = ({||}, {||}, JInt 0, JNull)"
proof -
  have bad: "strptime ''2025-13-45'' = Inl ValueError"
    by (simp add: strptime_def is_digit_def is_digit19_def digit_val_def)
  show ?thesis
    using load_defaults_on_failure [of bad_date_storage "JNull" KeyError
        "[(''holidays1'', JArray [JString ''2025-03-03'', JString ''2025-13-45'']),
          (''previous_year'', JInt 4), (''region'', JString ''berlin'')]"
        "[JString ''2025-03-03'', JString ''2025-13-45'']" "''2025-13-45''" ValueError]
      load_defaults_on_failure [of empty_storage]
    by (simp add: bad bad_date_storage_def empty_storage_def storage_defaults_def)
qed

section \<open>The rendered calendar\<close>

lemma create_day_date: "btn_date (create_day w mon dy row col) = midnight (cal_year w) mon dy"
  by (simp add: create_day_def Let_def)

lemma create_day_state:
  "(btn_state (create_day w mon dy row col) = DISABLED)
     = is_blocked (public_holidays w) (midnight (cal_year w) mon dy)"
  by (simp add: create_day_def Let_def is_blocked_def)

lemma create_day_command:
  "btn_command (create_day w mon dy row col)
     = (if is_blocked (public_holidays w) (midnight (cal_year w) mon dy) then None
        else Some (midnight (cal_year w) mon dy))"
  by (simp add: create_day_def Let_def is_blocked_def)

lemma day_loop_elem:
  assumes "b \<in> set (day_loop w mon ds row col)"
  shows "\<exists>dy r c. dy \<in> set ds \<and> b = create_day w mon dy r c"
  using assms
proof (induction ds arbitrary: row col)
  case Nil
  then show ?case by simp
next
  case (Cons a ds)
  then show ?case
    by (fastforce split: if_splits)
qed

lemma day_loop_covers:
  assumes "dy \<in> set ds"
  shows "midnight (cal_year w) mon dy \<in> btn_date ` set (day_loop w mon ds row col)"
  using assms
proof (induction ds arbitrary: row col)
  case Nil
  then show ?case by simp
next
  case (Cons a ds)
  show ?case
  proof (cases "dy = a")
    case True
    then show ?thesis by (simp add: create_day_date)
  next
    case False
    with Cons.prems have "dy \<in> set ds" by simp
    then show ?thesis
      using Cons.IH by (simp add: image_iff)
  qed
qed

lemma create_calendar_elem:
  assumes "create_calendar w = Inr buttons" and "b \<in> set buttons"
  shows "\<exists>mon dy r c. b = create_day w mon dy r c"
proof -
  have "buttons = concat (map (create_month w) [1..12])"
    using assms(1) by (simp add: create_calendar_def split: if_splits)
  with assms(2) obtain mon where "b \<in> set (create_month w mon)"
    by (simp only: set_concat set_map) blast
  then show ?thesis
    unfolding create_month_def Let_def by (blast dest: day_loop_elem)
qed

lemma create_calendar_covers:
  assumes "create_calendar w = Inr buttons" and "valid_date (cal_year w) mon dy"
  shows "midnight (cal_year w) mon dy \<in> btn_date ` set buttons"
proof -
  have m: "1 \<le> mon" "mon \<le> 12" and d: "1 \<le> dy" "dy \<le> days_in_month (cal_year w) mon"
    using assms(2) by (simp_all add: valid_date_def)
  have dec: "days_in_month (cal_year w) 12 = 31"
    by (simp add: days_in_month_def)
  have "dy \<in> set [1..(if mon = 12 then 31 else days_in_month (cal_year w) mon)]"
    using d dec by auto
  then have "midnight (cal_year w) mon dy \<in> btn_date ` set (create_month w mon)"
    unfolding create_month_def Let_def by (rule day_loop_covers)
  moreover have "buttons = concat (map (create_month w) [1..12])"
    using assms(1) by (simp add: create_calendar_def split: if_splits)
  moreover have "mon \<in> set [1..12]"
    using m by simp
  ultimately show ?thesis
    by (simp only: set_concat set_map) blast
qed

lemma frame_buttons:
  assumes "create_calendar_for_frame p yr = Inr fx" and "RenderCalendar buttons \<in> set fx"
  shows "\<exists>ph. get_holidays_for_year (holidays_data p) yr (region_var p) = Inr ph
            \<and> create_calendar \<lparr>cal_year = yr, cal_holidays = holidays1 p,
                                public_holidays = ph, base_year = yr\<rparr> = Inr buttons"
  using assms
  by (auto simp: create_calendar_for_frame_def Let_def py_then_def
      split: sum.splits if_splits)

text \<open>
  C4. In the calendar that \<open>create_calendar_for_frame\<close> renders for a year, with the public
  holidays the loader gives for that year and the planner's region: a day button is
  disabled exactly when its date is a Saturday, a Sunday or one of these public
  holidays, a button has no command exactly when it is disabled, every date of the year
  has a button, and every button is a date of the year.
\<close>

theorem blocked_iff_weekend_or_holiday:
  assumes "create_calendar_for_frame p yr = Inr fx" and "RenderCalendar buttons \<in> set fx"
  shows "\<exists>ph. get_holidays_for_year (holidays_data p) yr (region_var p) = Inr ph
          \<and> (\<forall>b \<in> set buttons.
                (btn_state b = DISABLED)
                  = (weekday (btn_date b) \<in> set [5, 6] \<or> btn_date b |\<in>| ph)
                \<and> (btn_command b = None) = (btn_state b = DISABLED))
          \<and> (\<forall>mon dy. valid_date yr mon dy \<longrightarrow> midnight yr mon dy \<in> btn_date ` set buttons)
          \<and> (\<forall>b \<in> set buttons. year (btn_date b) = yr)"
proof -
  obtain ph where ph: "get_holidays_for_year (holidays_data p) yr (region_var p) = Inr ph"
    and cal: "create_calendar \<lparr>cal_year = yr, cal_holidays = holidays1 p,
                                public_holidays = ph, base_year = yr\<rparr> = Inr buttons"
    using frame_buttons [OF assms] by blast
  let ?w = "\<lparr>cal_year = yr, cal_holidays = holidays1 p, public_holidays = ph, base_year = yr\<rparr>"
  have each: "(btn_state b = DISABLED)
                  = (weekday (btn_date b) \<in> set [5, 6] \<or> btn_date b |\<in>| ph)
                \<and> (btn_command b = None) = (btn_state b = DISABLED)
                \<and> year (btn_date b) = yr" if b_in: "b \<in> set buttons" for b
  proof -
    obtain mon dy r c where b: "b = create_day ?w mon dy r c"
      using create_calendar_elem [OF cal b_in] by blast
    show ?thesis
      unfolding b create_day_state create_day_command create_day_date
      by (simp add: is_blocked_def midnight_def)
  qed
  have cover: "midnight yr mon dy \<in> btn_date ` set buttons" if "valid_date yr mon dy" for mon dy
    using create_calendar_covers [OF cal, of mon dy] that by simp
  show ?thesis
    using ph each cover by blast
qed

lemma toggle_adds_only_its_date:
  "holidays1 (fst (toggle_holiday q d b)) |\<subseteq>| finsert d (holidays1 q)"
  by (auto simp: toggle_holiday_def Let_def split: sum.splits)

lemma click_adds_only_enabled_date:
  assumes "t |\<in>| holidays1 (fst (click_button q b))" and "t |\<notin>| holidays1 q"
  shows "btn_state b \<noteq> DISABLED \<and> btn_command b = Some t"
proof -
  have st: "btn_state b \<noteq> DISABLED"
    using assms by (auto simp: click_button_def)
  then obtain d where d: "btn_command b = Some d"
    using assms by (cases "btn_command b") (auto simp: click_button_def)
  have "t |\<in>| finsert d (holidays1 q)"
    using assms(1) st d toggle_adds_only_its_date [of q d TkButton]
    by (auto simp: click_button_def)
  with assms(2) have "t = d" by auto
  with st d show ?thesis by simp
qed

text \<open>
  C5. In the calendar rendered for the active year and region, a click on the button of a
  blocked date leaves the planner as it is, with no effect on the window and no
  exception, whatever the planner's selection is at that moment; and no series of clicks
  on the buttons of the calendar brings a blocked date into the selection.
\<close>

theorem blocked_click_noop:
  assumes "create_calendar_for_frame p (year_var p) = Inr fx"
    and "RenderCalendar buttons \<in> set fx"
    and "get_holidays_for_year (holidays_data p) (year_var p) (region_var p) = Inr ph"
  shows "(\<forall>b \<in> set buttons. is_blocked ph (btn_date b) \<longrightarrow> click_button q b = (q, [], None))
       \<and> (\<forall>bs t. set bs \<subseteq> set buttons \<and> is_blocked ph t \<and> t |\<notin>| holidays1 q
             \<longrightarrow> t |\<notin>| holidays1 (clicks q bs))"
proof -
  have cal: "create_calendar \<lparr>cal_year = year_var p, cal_holidays = holidays1 p,
                public_holidays = ph, base_year = year_var p\<rparr> = Inr buttons"
    using frame_buttons [OF assms(1,2)] assms(3) by simp
  let ?w = "\<lparr>cal_year = year_var p, cal_holidays = holidays1 p, public_holidays = ph,
             base_year = year_var p\<rparr>"
  have btn: "(btn_state b = DISABLED) = is_blocked ph (btn_date b)
             \<and> (btn_state b \<noteq> DISABLED \<longrightarrow> btn_command b = Some (btn_date b))"
    if b_in: "b \<in> set buttons" for b
  proof -
    obtain mon dy r c where b: "b = create_day ?w mon dy r c"
      using create_calendar_elem [OF cal b_in] by blast
    show ?thesis
      unfolding b create_day_state create_day_command create_day_date by simp
  qed
  have first: "click_button q' b = (q', [], None)"
    if "b \<in> set buttons" and "is_blocked ph (btn_date b)" for b q'
    using btn [OF that(1)] that(2) by (simp add: click_button_def)
  have step: "t |\<notin>| holidays1 (fst (click_button q' b))"
    if "b \<in> set buttons" and "is_blocked ph t" and "t |\<notin>| holidays1 q'" for b t q'
  proof
    assume "t |\<in>| holidays1 (fst (click_button q' b))"
    then have "btn_state b \<noteq> DISABLED \<and> btn_command b = Some t"
      using that(3) by (rule click_adds_only_enabled_date)
    with btn [OF that(1)] have "\<not> is_blocked ph (btn_date b)" and "btn_date b = t"
      by auto
    with that(2) show False by simp
  qed
  have many: "t |\<notin>| holidays1 (clicks q' bs)"
    if "set bs \<subseteq> set buttons" and "is_blocked ph t" and "t |\<notin>| holidays1 q'" for bs t q'
    using that
  proof (induction bs arbitrary: q')
    case Nil
    then show ?case by simp
  next
    case (Cons b bs)
    from Cons.prems have "b \<in> set buttons" and "set bs \<subseteq> set buttons"
      by simp_all
    with Cons show ?case
      by (simp add: step)
  qed
  show ?thesis
    using first many by blast
qed

lemma berlin_holidays:
  "get_holidays_for_year berlin_config 2025 ''berlin'' = Inr {|midnight 2025 12 25|}"
  by (simp add: get_holidays_for_year_def berlin_config_def py_then_def str_int_def
      digit_char_def entry_date_def strptime_def is_digit_def is_digit19_def digit_val_def
      datetime_new_def valid_date_def days_in_month_def)

lemma berlin_years: "get_available_years berlin_config ''berlin'' = Inr [2025]"
  by (simp add: get_available_years_def berlin_config_def py_then_def py_int_def strip_def
      is_space_def is_digit_def digit_val_def)

lemma berlin_frame:
  "create_calendar_for_frame planner_berlin 2025 = Inr [RenderCalendar berlin_buttons]"
  by (simp add: create_calendar_for_frame_def planner_berlin_def berlin_holidays berlin_years
      py_then_def create_calendar_def berlin_buttons_def)

lemma berlin_christmas_valid: "valid_date 2025 12 25"
  by (simp add: valid_date_def days_in_month_def)

theorem blocked_iff_weekend_or_holiday_witness:
  "\<exists>b \<in> set berlin_buttons. btn_date b = midnight 2025 12 25 \<and> btn_state b = DISABLED
      \<and> btn_command b = None"
proof -
  have r: "RenderCalendar berlin_buttons \<in> set [RenderCalendar berlin_buttons]"
    by simp
  have pb: "region_var planner_berlin = ''berlin''" "holidays_data planner_berlin = berlin_config"
    by (simp_all add: planner_berlin_def)
  have all: "\<forall>b \<in> set berlin_buttons.
                (btn_state b = DISABLED)
                  = (weekday (btn_date b) \<in> set [5, 6] \<or> btn_date b |\<in>| {|midnight 2025 12 25|})
                \<and> (btn_command b = None) = (btn_state b = DISABLED)"
    and cover: "\<forall>mon dy. valid_date 2025 mon dy
                  \<longrightarrow> midnight 2025 mon dy \<in> btn_date ` set berlin_buttons"
    using blocked_iff_weekend_or_holiday [OF berlin_frame r] berlin_holidays pb
    by auto
  have "midnight 2025 12 25 \<in> btn_date ` set berlin_buttons"
    using cover berlin_christmas_valid by blast
  then obtain b where b: "b \<in> set berlin_buttons" "btn_date b = midnight 2025 12 25"
    by auto
  with all have "btn_state b = DISABLED \<and> btn_command b = None"
    by simp
  with b show ?thesis by blast
qed

theorem blocked_click_noop_witness:
  "\<exists>b \<in> set berlin_buttons. btn_date b = midnight 2025 12 25
      \<and> click_button planner_berlin b = (planner_berlin, [], None)"
proof -
  have r: "RenderCalendar berlin_buttons \<in> set [RenderCalendar berlin_buttons]"
    by simp
  have f: "create_calendar_for_frame planner_berlin (year_var planner_berlin)
             = Inr [RenderCalendar berlin_buttons]"
    using berlin_frame by (simp add: planner_berlin_def)
  have h: "get_holidays_for_year (holidays_data planner_berlin) (year_var planner_berlin)
             (region_var planner_berlin) = Inr {|midnight 2025 12 25|}"
    using berlin_holidays by (simp add: planner_berlin_def)
  have c: "create_calendar \<lparr>cal_year = 2025, cal_holidays = {||},
             public_holidays = {|midnight 2025 12 25|}, base_year = 2025\<rparr> = Inr berlin_buttons"
    by (simp add: create_calendar_def berlin_buttons_def)
  have "midnight 2025 12 25 \<in> btn_date ` set berlin_buttons"
    using create_calendar_covers [OF c, of 12 25] berlin_christmas_valid by simp
  then obtain b where b: "b \<in> set berlin_buttons" "btn_date b = midnight 2025 12 25"
    by auto
  have "is_blocked {|midnight 2025 12 25|} (btn_date b)"
    using b(2) by (simp add: is_blocked_def)
  then have "click_button planner_berlin b = (planner_berlin, [], None)"
    using blocked_click_noop [OF f r h, of planner_berlin] b(1) by blast
  with b show ?thesis by blast
qed

section \<open>Holiday lookup\<close>

lemma str_2025: "str_int 2025 = ''2025''"
  by (simp add: str_int_def digit_char_def)

lemma strptime_christmas: "strptime ''2025-12-25'' = Inr (midnight 2025 12 25)"
  by (simp add: strptime_def is_digit_def is_digit19_def digit_val_def datetime_new_def
      valid_date_def days_in_month_def)

text \<open>
  C6. An entry whose date is null: \<open>strptime\<close> raises TypeError, which the handler for
  KeyError and ValueError does not catch, so the call fails although the entry after it is
  a good one.
\<close>

theorem get_holidays_type_error:
  "get_holidays_for_year null_date_config 2025 ''berlin'' = Inl TypeError"
  by (simp add: get_holidays_for_year_def null_date_config_def py_then_def str_2025
      entry_date_def)

text \<open>
  The first entry for Christmas 2025 has no name, the second has one: the loader returns
  the name of the second entry, where the first match has none to give.
\<close>

theorem holiday_name_counterexample:
  "get_holiday_name nameless_first_config (midnight 2025 12 25) ''berlin''
     = Inr (Some (JString ''Christmas''))
   \<and> claimed_holiday_name nameless_first_config (midnight 2025 12 25) ''berlin'' = None"
  by (simp add: get_holiday_name_def nameless_first_config_def py_then_def str_2025
      entry_name_if_match_def strptime_christmas claimed_holiday_name_def entries_of_def
      entry_on_def parsed_date_def date_text_def name_value_def midnight_def date_of_def)

lemma strptime_error: "strptime s = Inl e \<Longrightarrow> e = ValueError"
  by (auto simp: strptime_def datetime_new_def
      split: option.splits list.splits if_splits prod.splits)

lemma entry_name_match:
  assumes "entry_well_typed h" and "entry_on date h" and "name_value h = Some n"
  shows "entry_name_if_match date h = Inr (Some n)"
  using assms
  by (auto simp: entry_well_typed_def entry_on_def parsed_date_def date_text_def name_value_def
      entry_name_if_match_def py_then_def
      split: json.splits option.splits sum.splits)

lemma entry_name_skip:
  assumes "entry_well_typed h" and "\<not> (entry_on date h \<and> name_value h \<noteq> None)"
  shows "entry_name_if_match date h = Inr None \<or> entry_name_if_match date h = Inl KeyError
         \<or> entry_name_if_match date h = Inl ValueError"
  using assms
  by (auto simp: entry_well_typed_def entry_on_def parsed_date_def date_text_def name_value_def
      entry_name_if_match_def py_then_def
      split: json.splits option.splits sum.splits dest: strptime_error)

lemma name_loop_find:
  assumes "list_all entry_well_typed es"
  shows "name_loop date es
           = Inr (case find (\<lambda>h. entry_on date h \<and> name_value h \<noteq> None) es of
                    None \<Rightarrow> None | Some h \<Rightarrow> name_value h)"
  using assms
proof (induction es)
  case Nil
  then show ?case by simp
next
  case (Cons h es)
  then have wt: "entry_well_typed h" and rest: "list_all entry_well_typed es"
    by simp_all
  show ?case
  proof (cases "entry_on date h \<and> name_value h \<noteq> None")
    case True
    then obtain n where n: "name_value h = Some n" by auto
    with True wt have "entry_name_if_match date h = Inr (Some n)"
      by (simp add: entry_name_match)
    with True n show ?thesis by simp
  next
    case False
    from entry_name_skip [OF wt False] Cons.IH [OF rest] False show ?thesis
      by auto
  qed
qed

lemma map_of_list_all:
  assumes "map_of kvs k = Some v" and "list_all (\<lambda>kv. P (snd kv)) kvs"
  shows "P v"
proof -
  have "(k, v) \<in> set kvs"
    using assms(1) by (rule map_of_SomeD)
  with assms(2) show ?thesis
    by (auto simp: list_all_iff)
qed

lemma key_in_fst: "(k \<in> fst ` set kvs) = (map_of kvs k \<noteq> None)"
  by (simp add: map_of_eq_None_iff)

text \<open>
  C8, amended. On a configuration of the documented shape, \<open>get_holiday_name\<close> returns the
  name of the first entry, in stored order, of the date's year and the region, whose date
  is the given day and which has a name; it returns none when the region, the year or
  such an entry is absent.
\<close>

theorem holiday_name_first_named:
  assumes "config_well_typed cfg"
  shows "get_holiday_name cfg date region = Inr (first_named_holiday cfg date region)"
proof -
  obtain rs where cfg: "cfg = JObject rs"
    and rs: "list_all (\<lambda>kv. region_well_typed (snd kv)) rs"
    using assms by (auto simp: config_well_typed_def split: json.splits)
  show ?thesis
  proof (cases "map_of rs region")
    case None
    then show ?thesis
      by (simp add: cfg get_holiday_name_def py_then_def key_in_fst first_named_holiday_def
          entries_of_def)
  next
    case (Some rv)
    then have "region_well_typed rv"
      using rs by (rule map_of_list_all)
    then obtain ys where rv: "rv = JObject ys"
      and ys: "list_all (\<lambda>kv. year_well_typed (snd kv)) ys"
      by (auto simp: region_well_typed_def split: json.splits)
    show ?thesis
    proof (cases "map_of ys (str_int (year date))")
      case None
      then show ?thesis
        by (simp add: cfg Some rv get_holiday_name_def py_then_def key_in_fst
            first_named_holiday_def entries_of_def)
    next
      case (Some yv)
      then have "year_well_typed yv"
        using ys by (rule map_of_list_all)
      then obtain es where yv: "yv = JArray es" and es: "list_all entry_well_typed es"
        by (auto simp: year_well_typed_def split: json.splits)
      show ?thesis
        by (simp add: cfg \<open>map_of rs region = Some rv\<close> rv Some yv get_holiday_name_def
            py_then_def key_in_fst first_named_holiday_def entries_of_def
            name_loop_find [OF es])
    qed
  qed
qed

theorem holiday_name_first_named_witness:
  "config_well_typed nameless_first_config
   \<and> get_holiday_name nameless_first_config (midnight 2025 12 25) ''berlin''
       = Inr (Some (JString ''Christmas''))"
proof -
  have wt: "config_well_typed nameless_first_config"
    by (simp add: config_well_typed_def region_well_typed_def year_well_typed_def
        entry_well_typed_def nameless_first_config_def)
  have "first_named_holiday nameless_first_config (midnight 2025 12 25) ''berlin''
          = Some (JString ''Christmas'')"
    by (simp add: first_named_holiday_def entries_of_def nameless_first_config_def str_2025
        entry_on_def parsed_date_def date_text_def name_value_def strptime_christmas
        midnight_def date_of_def)
  with wt holiday_name_first_named [OF wt, of "midnight 2025 12 25" "''berlin''"]
  show ?thesis by simp
qed

lemma entry_date_parsed:
  assumes "entry_well_typed h"
  shows "(case parsed_date h of
            Some t \<Rightarrow> entry_date h = Inr t
          | None \<Rightarrow> entry_date h = Inl KeyError \<or> entry_date h = Inl ValueError)"
  using assms
  by (auto simp: entry_well_typed_def parsed_date_def date_text_def entry_date_def py_then_def
      split: json.splits option.splits sum.splits dest: strptime_error)

lemma holidays_loop_parsed:
  assumes "list_all entry_well_typed es"
  shows "holidays_loop es acc = Inr (acc |\<union>| fset_of_list (List.map_filter parsed_date es))"
  using assms
proof (induction es arbitrary: acc)
  case Nil
  then show ?case by simp
next
  case (Cons h es)
  then have wt: "entry_well_typed h" and rest: "list_all entry_well_typed es"
    by simp_all
  show ?case
  proof (cases "parsed_date h")
    case None
    with entry_date_parsed [OF wt] Cons.IH [OF rest] show ?thesis
      by auto
  next
    case (Some t)
    with entry_date_parsed [OF wt] Cons.IH [OF rest] show ?thesis
      by auto
  qed
qed

text \<open>
  On a configuration of the documented shape \<open>get_holidays_for_year\<close> does not fail: it
  returns the dates of the entries whose date text is a date, and the empty set when the
  region or the year is absent.
\<close>

lemma get_holidays_well_typed:
  assumes "config_well_typed cfg"
  shows "get_holidays_for_year cfg yr region
           = Inr (fset_of_list (List.map_filter parsed_date (entries_of cfg yr region)))"
proof -
  obtain rs where cfg: "cfg = JObject rs"
    and rs: "list_all (\<lambda>kv. region_well_typed (snd kv)) rs"
    using assms by (auto simp: config_well_typed_def split: json.splits)
  show ?thesis
  proof (cases "map_of rs region")
    case None
    then show ?thesis
      by (simp add: cfg get_holidays_for_year_def py_then_def key_in_fst entries_of_def)
  next
    case (Some rv)
    then have "region_well_typed rv"
      using rs by (rule map_of_list_all)
    then obtain ys where rv: "rv = JObject ys"
      and ys: "list_all (\<lambda>kv. year_well_typed (snd kv)) ys"
      by (auto simp: region_well_typed_def split: json.splits)
    show ?thesis
    proof (cases "map_of ys (str_int yr)")
      case None
      then show ?thesis
        by (simp add: cfg Some rv get_holidays_for_year_def py_then_def key_in_fst
            entries_of_def)
    next
      case (Some yv)
      then have "year_well_typed yv"
        using ys by (rule map_of_list_all)
      then obtain es where yv: "yv = JArray es" and es: "list_all entry_well_typed es"
        by (auto simp: year_well_typed_def split: json.splits)
      show ?thesis
        by (simp add: cfg \<open>map_of rs region = Some rv\<close> rv Some yv get_holidays_for_year_def
            py_then_def key_in_fst entries_of_def holidays_loop_parsed [OF es])
    qed
  qed
qed

section \<open>Region change\<close>

lemma sort_head_Min:
  fixes xs :: "int list"
  assumes "sort xs = a # as"
  shows "a = Min (set xs)"
proof -
  have s: "sorted (a # as)"
    unfolding assms [symmetric] by simp
  have e: "set (a # as) = set xs"
    unfolding assms [symmetric] by simp
  have "Min (set xs) = a"
  proof (rule Min_eqI)
    show "finite (set xs)" by simp
    show "a \<in> set xs" using e by auto
    show "a \<le> y" if "y \<in> set xs" for y
      using that s e by auto
  qed
  then show ?thesis by simp
qed

lemma sort_Nil_iff: "(sort xs = []) = (xs = [])"
  by (metis length_sort length_0_conv)

text \<open>
  C9, amended. When the years of the new region can be read: a cancelled change leaves the
  year and puts the old region back; a change that is carried out keeps the selected
  year when it is among the available years of the new region, otherwise selects the
  smallest of them, and selects CURRENT_YEAR when the new region has no year at all.
\<close>

theorem region_change_year:
  assumes "get_available_years (holidays_data p) (region_var p) = Inr available"
  shows "((holidays1 p \<noteq> {||} \<or> holidays2 p \<noteq> {||}) \<and> response = Cancel \<longrightarrow>
            year_var (fst (on_region_change order now CY response p st)) = year_var p
          \<and> region_var (fst (on_region_change order now CY response p st)) = initial_region p)
       \<and> (\<not> ((holidays1 p \<noteq> {||} \<or> holidays2 p \<noteq> {||}) \<and> response = Cancel) \<longrightarrow>
            (year_var p \<in> set available \<longrightarrow>
               year_var (fst (on_region_change order now CY response p st)) = year_var p)
          \<and> (year_var p \<notin> set available \<and> available \<noteq> [] \<longrightarrow>
               year_var (fst (on_region_change order now CY response p st)) = Min (set available))
          \<and> (available = [] \<longrightarrow>
               year_var (fst (on_region_change order now CY response p st)) = CY))"
proof (cases "(holidays1 p \<noteq> {||} \<or> holidays2 p \<noteq> {||}) \<and> response = Cancel")
  case True
  then show ?thesis
    by (simp add: on_region_change_def Let_def)
next
  case False
  show ?thesis
  proof (cases "sort available")
    case Nil
    then have "available = []"
      by (simp add: sort_Nil_iff)
    with False assms show ?thesis
      by (simp add: on_region_change_def Let_def)
  next
    case (Cons a as)
    then have ne: "available \<noteq> []" by auto
    have m: "a = Min (set available)"
      using Cons by (rule sort_head_Min)
    have s: "set (a # as) = set available"
      unfolding Cons [symmetric] by simp
    from False assms Cons ne m s show ?thesis
      by (auto simp: on_region_change_def Let_def)
  qed
qed

lemma hamburg_years: "get_available_years regions_config ''hamburg'' = Inr [2027, 2026]"
  by (simp add: get_available_years_def regions_config_def py_then_def py_int_def strip_def
      is_space_def is_digit_def digit_val_def)

lemma bremen_years: "get_available_years regions_config ''bremen'' = Inr []"
  by (simp add: get_available_years_def regions_config_def py_then_def)

theorem region_change_year_witness:
  "year_var (fst (on_region_change (\<lambda>S. []) (midnight 2026 1 1) 2026 No planner_to_hamburg
      empty_storage)) = 2026"
proof -
  have a: "get_available_years (holidays_data planner_to_hamburg) (region_var planner_to_hamburg)
             = Inr [2027, 2026]"
    using hamburg_years by (simp add: planner_to_hamburg_def)
  show ?thesis
    using region_change_year [OF a, of No "\<lambda>S. []" "midnight 2026 1 1" 2026 empty_storage]
    by (simp add: planner_to_hamburg_def)
qed

text \<open>
  A region without years: the selected year 2025 becomes CURRENT_YEAR, here 2026, which is
  not an available year of the region.
\<close>

theorem region_change_year_counterexample:
  "get_available_years (holidays_data planner_to_bremen) (region_var planner_to_bremen) = Inr []
   \<and> year_var (fst (on_region_change (\<lambda>S. []) (midnight 2026 1 1) 2026 No planner_to_bremen
        empty_storage)) = 2026
   \<and> \<not> claimed_region_change_year [] (year_var planner_to_bremen)
        (year_var (fst (on_region_change (\<lambda>S. []) (midnight 2026 1 1) 2026 No planner_to_bremen
           empty_storage)))"
  using bremen_years
  by (simp add: planner_to_bremen_def on_region_change_def Let_def claimed_region_change_year_def)

end
